theory Spec2Isabelle
  imports Complex_Main "HOL-Library.AList"
begin

section \<open>Python values, errors and outcomes\<close>

text \<open>
  The program is \<^verbatim>\<open>pysar/geocode.py\<close>. Its metadata dictionaries hold Python
  values of several types: strings as read from a file, and the integers and floats
  that the transforms store. Floating-point numbers are an abstract type \<open>'f\<close>: the
  operations on them are fields of \<open>pyops\<close>, so every theorem holds for any
  floating-point arithmetic.
\<close>

datatype 'f pyval = PStr string | PInt int | PFloat 'f

datatype error =
    SystemExit int
  | Exception string
  | FileNotFoundError
  | ValueError
  | KeyError
  | IndexError
  | OverflowError
  | ZeroDivisionError

text \<open>
  What a call of \<^verbatim>\<open>_check_inps\<close> or of \<^verbatim>\<open>main\<close> does: it returns or it raises.
  \<^verbatim>\<open>sys.exit(code)\<close> is Python's \<^verbatim>\<open>raise SystemExit(code)\<close>; the program has no
  \<^verbatim>\<open>try\<close> around it, so the exception leaves \<^verbatim>\<open>main\<close> and the interpreter ends
  the process with that status.
\<close>

datatype 'a outcome = Return 'a | Raise error

definition ebind :: "error + 'a \<Rightarrow> ('a \<Rightarrow> error + 'b) \<Rightarrow> error + 'b" where
  "ebind m f = (case m of Inl e \<Rightarrow> Inl e | Inr x \<Rightarrow> f x)"

definition of_opt :: "error \<Rightarrow> 'a option \<Rightarrow> error + 'a" where
  "of_opt e m = (case m of None \<Rightarrow> Inl e | Some x \<Rightarrow> Inr x)"

text \<open>
  The built-in conversions and the numpy operations on floats that the program calls.
  \<open>float_of_str\<close> is \<^verbatim>\<open>float(s)\<close> and \<open>int_of_str\<close> is \<^verbatim>\<open>int(s)\<close> on a
  string (\<open>None\<close> where Python raises ValueError); \<open>int_of_float\<close> is \<^verbatim>\<open>int(x)\<close>
  on a float, which raises on NaN and on an infinity; \<open>fdiv\<close> may raise on a zero
  divisor (Python floats do, numpy floats do not).
\<close>

record 'f pyops =
  float_of_str :: "string \<Rightarrow> 'f option"
  float_of_int :: "int \<Rightarrow> error + 'f"
  int_of_str :: "string \<Rightarrow> int option"
  int_of_float :: "'f \<Rightarrow> error + int"
  str_of_float :: "'f \<Rightarrow> string"
  nan :: "'f"
  isnan :: "'f \<Rightarrow> bool"
  fsub :: "'f \<Rightarrow> 'f \<Rightarrow> 'f"
  fdiv :: "'f \<Rightarrow> 'f \<Rightarrow> error + 'f"
  rint :: "'f \<Rightarrow> 'f"

definition py_int :: "'f pyops \<Rightarrow> 'f pyval \<Rightarrow> error + int" where
  "py_int ops v =
     (case v of
        PStr s \<Rightarrow> of_opt ValueError (int_of_str ops s)
      | PInt i \<Rightarrow> Inr i
      | PFloat x \<Rightarrow> int_of_float ops x)"

definition py_float :: "'f pyops \<Rightarrow> 'f pyval \<Rightarrow> error + 'f" where
  "py_float ops v =
     (case v of
        PStr s \<Rightarrow> of_opt ValueError (float_of_str ops s)
      | PInt i \<Rightarrow> float_of_int ops i
      | PFloat x \<Rightarrow> Inr x)"

text \<open>\<^verbatim>\<open>str(n)\<close> of a Python integer.\<close>

definition digit_char :: "nat \<Rightarrow> char" where
  "digit_char d = char_of (48 + d)"

fun str_of_nat :: "nat \<Rightarrow> string" where
  "str_of_nat n = (if n < 10 then [digit_char n] else str_of_nat (n div 10) @ [digit_char (n mod 10)])"

declare str_of_nat.simps [simp del]

definition str_of_int :: "int \<Rightarrow> string" where
  "str_of_int i = (if i < 0 then CHR ''-'' # str_of_nat (nat (- i)) else str_of_nat (nat i))"

text \<open>Truthiness of an optional string (\<^verbatim>\<open>None\<close> and \<^verbatim>\<open>''\<close> are false).\<close>

definition truthy :: "string option \<Rightarrow> bool" where
  "truthy v = (case v of None \<Rightarrow> False | Some s \<Rightarrow> s \<noteq> [])"

section \<open>Attribute dictionaries\<close>

text \<open>
  A metadata dictionary is an association list in insertion order. \<open>AList.update\<close> is
  \<^verbatim>\<open>d[k] = v\<close> (the value is replaced in place, a new key goes to the end) and
  \<open>AList.delete\<close> removes a key.
\<close>

type_synonym 'f attr = "(string \<times> 'f pyval) list"

definition keys :: "(string \<times> 'a) list \<Rightarrow> string set" where
  "keys d = fst ` set d"

text \<open>\<^verbatim>\<open>d.pop(k)\<close> raises KeyError on an absent key.\<close>

definition pop :: "string \<Rightarrow> (string \<times> 'a) list \<Rightarrow> error + (string \<times> 'a) list" where
  "pop k d = (if k \<in> keys d then Inr (AList.delete k d) else Inl KeyError)"

text \<open>
  \<^verbatim>\<open>try: d.pop(k1); d.pop(k2); ... except: pass\<close>: the first failing pop ends the
  block, and the pops before it stay done.
\<close>

fun try_pops :: "string list \<Rightarrow> (string \<times> 'a) list \<Rightarrow> (string \<times> 'a) list" where
  "try_pops [] d = d"
| "try_pops (k # ks) d = (case pop k d of Inl e \<Rightarrow> d | Inr d' \<Rightarrow> try_pops ks d')"

section \<open>The geometry definition and the collaborators\<close>

text \<open>
  The \<^verbatim>\<open>resample\<close> object after \<^verbatim>\<open>get_geometry_definition()\<close>: the output grid
  size, the resolved bounding box (S, N, W, E), the resolved grid step (lat, lon) and
  the lookup file it was built from.
\<close>

record 'f res_obj =
  res_length :: int
  res_width :: int
  res_SNWE :: "'f \<times> 'f \<times> 'f \<times> 'f"
  res_laloStep :: "'f \<times> 'f"
  res_file :: "string option"

text \<open>The parsed command line (\<^verbatim>\<open>inps\<close>), with the attribute \<^verbatim>\<open>laloStep\<close> the program adds.\<close>

record 'f inps =
  file_list :: "string list"
  dset :: "string option"
  radar2geo :: bool
  lookupFile :: "string option"
  templateFile :: "string option"
  SNWE :: "'f list option"
  latStep :: "'f option"
  lonStep :: "'f option"
  interpMethod :: string
  fillValue :: "'f"
  updateMode :: bool
  outfile :: "string option"
  out_dir :: "string option"
  laloStep :: "'f list option"

text \<open>
  The modules the program imports (\<^verbatim>\<open>pysar.utils\<close>, \<^verbatim>\<open>pysar.objects.resample\<close>)
  are parameters. \<open>'w\<close> is the state of the file system, \<open>'d\<close> the type of arrays.
\<close>

record ('f, 'w, 'd) env =
  get_file_list :: "'w \<Rightarrow> string list \<Rightarrow> string list"
  get_lookup_file :: "'w \<Rightarrow> string option \<Rightarrow> string option"
  read_attribute :: "'w \<Rightarrow> string \<Rightarrow> string option \<Rightarrow> 'f attr"
  read_template :: "'w \<Rightarrow> string \<Rightarrow> (string \<times> string) list"
  radar2glob :: "'w \<Rightarrow> int \<Rightarrow> int \<Rightarrow> string option \<Rightarrow> 'f attr \<Rightarrow> 'f \<times> 'f"
  get_geometry_definition ::
    "'w \<Rightarrow> string option \<Rightarrow> string \<Rightarrow> 'f list option \<Rightarrow> 'f list option \<Rightarrow> 'f res_obj"
  cpu_count :: nat
  update_file :: "'w \<Rightarrow> string \<Rightarrow> string option list \<Rightarrow> bool"
  get_dataset_list :: "'w \<Rightarrow> string \<Rightarrow> string option \<Rightarrow> string list"
  read_data :: "'w \<Rightarrow> string \<Rightarrow> string \<Rightarrow> 'd"
  ndim :: "'d \<Rightarrow> nat"
  moveaxis :: "'d \<Rightarrow> int \<Rightarrow> int \<Rightarrow> 'd"
  resample :: "'f res_obj \<Rightarrow> 'd \<Rightarrow> string \<Rightarrow> 'f \<Rightarrow> nat \<Rightarrow> 'd"
  write_file :: "'w \<Rightarrow> (string \<times> 'd) list \<Rightarrow> string \<Rightarrow> 'f attr \<Rightarrow> string option \<Rightarrow> 'w"

section \<open>Metadata transforms\<close>

text \<open>
  \<^verbatim>\<open>metadata_radar2geo\<close>. The result carries the dictionary and the warnings emitted.
\<close>

definition ref_index :: "'f pyops \<Rightarrow> 'f \<Rightarrow> 'f pyval \<Rightarrow> 'f pyval \<Rightarrow> error + int" where
  "ref_index ops v first step =
     ebind (py_float ops first) (\<lambda>f0.
     ebind (py_float ops step) (\<lambda>st.
     ebind (fdiv ops (fsub ops v f0) st) (\<lambda>q.
     int_of_float ops (rint ops q))))"

definition getitem :: "(string \<times> 'a) list \<Rightarrow> string \<Rightarrow> error + 'a" where
  "getitem d k = of_opt KeyError (map_of d k)"

definition out_of_coverage :: string where
  "out_of_coverage = ''original reference pixel is out of .trans file's coverage. Continue.''"

definition update_ref :: "'f pyops \<Rightarrow> 'f attr \<Rightarrow> 'f \<Rightarrow> 'f \<Rightarrow> error + 'f attr" where
  "update_ref ops atr ref_lat ref_lon =
     ebind (getitem atr ''Y_FIRST'') (\<lambda>y_first.
     ebind (getitem atr ''Y_STEP'') (\<lambda>y_step.
     ebind (ref_index ops ref_lat y_first y_step) (\<lambda>ref_y.
     ebind (getitem atr ''X_FIRST'') (\<lambda>x_first.
     ebind (getitem atr ''X_STEP'') (\<lambda>x_step.
     ebind (ref_index ops ref_lon x_first x_step) (\<lambda>ref_x.
       Inr (AList.update ''REF_X'' (PStr (str_of_int ref_x))
           (AList.update ''REF_Y'' (PStr (str_of_int ref_y))
           (AList.update ''REF_LON'' (PStr (str_of_float ops ref_lon))
           (AList.update ''REF_LAT'' (PStr (str_of_float ops ref_lat)) atr))))))))))"

definition drop_ref :: "'f attr \<Rightarrow> 'f attr" where
  "drop_ref atr = try_pops [''REF_LAT'', ''REF_LON''] (try_pops [''REF_Y'', ''REF_X''] atr)"

definition set_geo_keys :: "'f attr \<Rightarrow> 'f res_obj \<Rightarrow> 'f attr" where
  "set_geo_keys atr_in res =
     AList.update ''X_UNIT'' (PStr ''degrees'')
    (AList.update ''Y_UNIT'' (PStr ''degrees'')
    (AList.update ''X_STEP'' (PFloat (snd (res_laloStep res)))
    (AList.update ''Y_STEP'' (PFloat (fst (res_laloStep res)))
    (AList.update ''X_FIRST'' (PFloat (fst (snd (snd (res_SNWE res)))))
    (AList.update ''Y_FIRST'' (PFloat (fst (snd (res_SNWE res))))
    (AList.update ''WIDTH'' (PInt (res_width res))
    (AList.update ''LENGTH'' (PInt (res_length res)) atr_in)))))))"

definition metadata_radar2geo ::
  "'f pyops \<Rightarrow> ('f, 'w, 'd) env \<Rightarrow> 'w \<Rightarrow> 'f attr \<Rightarrow> 'f res_obj \<Rightarrow> error + ('f attr \<times> string list)" where
  "metadata_radar2geo ops env w atr_in res =
     (let atr = set_geo_keys atr_in res
      in if ''REF_Y'' \<in> keys atr then
           ebind (getitem atr ''REF_Y'') (\<lambda>vy.
           ebind (py_int ops vy) (\<lambda>y.
           ebind (getitem atr ''REF_X'') (\<lambda>vx.
           ebind (py_int ops vx) (\<lambda>x.
             (case radar2glob env w y x (res_file res) atr_in of
                (ref_lat, ref_lon) \<Rightarrow>
                  (if \<not> isnan ops ref_lat \<and> \<not> isnan ops ref_lon
                   then ebind (update_ref ops atr ref_lat ref_lon) (\<lambda>atr'. Inr (atr', []))
                   else Inr (drop_ref atr, [out_of_coverage])))))))
         else Inr (atr, []))"

text \<open>\<^verbatim>\<open>metadata_geo2radar\<close>: each key is popped in a try block of its own.\<close>

definition removal_keys :: "string list" where
  "removal_keys = [''Y_FIRST'', ''X_FIRST'', ''Y_STEP'', ''X_STEP'', ''Y_UNIT'', ''X_UNIT'',
                   ''REF_Y'', ''REF_X'', ''REF_LAT'', ''REF_LON'']"

definition metadata_geo2radar :: "'f attr \<Rightarrow> 'f res_obj \<Rightarrow> 'f attr" where
  "metadata_geo2radar atr_in res =
     (let atr = atr_in;
          atr = AList.update ''LENGTH'' (PInt (res_length res)) atr;
          atr = AList.update ''WIDTH'' (PInt (res_width res)) atr
      in fold (\<lambda>i atr. try_pops [i] atr) removal_keys atr)"

section \<open>Strings and paths\<close>

text \<open>\<^verbatim>\<open>s.split(c)\<close>, \<^verbatim>\<open>s.lower()\<close> on ASCII letters and \<^verbatim>\<open>sub in s\<close>.\<close>

fun split_on :: "char \<Rightarrow> string \<Rightarrow> string list" where
  "split_on c [] = [[]]"
| "split_on c (x # xs) =
     (if x = c then [] # split_on c xs
      else (case split_on c xs of [] \<Rightarrow> [[x]] | p # ps \<Rightarrow> (x # p) # ps))"

definition lower_char :: "char \<Rightarrow> char" where
  "lower_char c =
     (if 65 \<le> (of_char c :: nat) \<and> (of_char c :: nat) \<le> 90
      then char_of ((of_char c :: nat) + 32) else c)"

definition lower :: "string \<Rightarrow> string" where
  "lower s = map lower_char s"

fun contains :: "string \<Rightarrow> string \<Rightarrow> bool" where
  "contains sub [] = (sub = [])"
| "contains sub (c # cs) = (take (length sub) (c # cs) = sub \<or> contains sub cs)"

text \<open>\<^verbatim>\<open>os.path.basename\<close> and \<^verbatim>\<open>os.path.join\<close> of two components (POSIX).\<close>

definition basename :: "string \<Rightarrow> string" where
  "basename p = rev (takeWhile (\<lambda>c. c \<noteq> CHR ''/'') (rev p))"

definition path_join :: "string \<Rightarrow> string \<Rightarrow> string" where
  "path_join a b =
     (case b of
        c # cs \<Rightarrow>
          (if c = CHR ''/'' then b
           else if a = [] \<or> last a = CHR ''/'' then a @ b
           else a @ ''/'' @ b)
      | [] \<Rightarrow> (if a = [] \<or> last a = CHR ''/'' then a @ b else a @ ''/'' @ b))"

section \<open>Resolving the request\<close>

text \<open>
  Modelled from the spec: \<^verbatim>\<open>ut.check_template_auto_value\<close> is not part of
  \<^verbatim>\<open>geocode.py\<close>. The spec says that a template value of the literal \<^verbatim>\<open>auto\<close>
  token is treated as unset; every other value stays as read.
\<close>

definition check_template_auto_value :: "(string \<times> string) list \<Rightarrow> (string \<times> string option) list" where
  "check_template_auto_value template =
     map (\<lambda>(k, v). (k, if v = ''auto'' then None else Some v)) template"

text \<open>\<^verbatim>\<open>inps.laloStep = [inps.latStep, inps.lonStep]; if None in it: None\<close>.\<close>

definition set_laloStep :: "'f inps \<Rightarrow> 'f inps" where
  "set_laloStep inps =
     (let l = [latStep inps, lonStep inps]
      in inps\<lparr>laloStep := (if None \<in> set l then None else those l)\<rparr>)"

definition inps_keys :: "string list" where
  "inps_keys = [''file'', ''dset'', ''radar2geo'', ''lookupFile'', ''templateFile'', ''SNWE'',
                ''latStep'', ''lonStep'', ''interpMethod'', ''fillValue'', ''updateMode'',
                ''outfile'', ''out_dir'']"

definition prefix_geocode :: string where
  "prefix_geocode = ''pysar.geocode.''"

text \<open>The body of the loop over \<^verbatim>\<open>key_list\<close> for a value that is true.\<close>

definition set_from_template :: "'f pyops \<Rightarrow> string \<Rightarrow> string \<Rightarrow> 'f inps \<Rightarrow> error + 'f inps" where
  "set_from_template ops key v inps =
     (if key = ''SNWE'' then
        ebind (of_opt ValueError (those (map (float_of_str ops) (split_on CHR '','' v))))
          (\<lambda>t. Inr (inps\<lparr>SNWE := Some t\<rparr>))
      else if key \<in> set [''latStep'', ''lonStep''] then
        ebind (of_opt ValueError (float_of_str ops v))
          (\<lambda>x. Inr (if key = ''latStep'' then inps\<lparr>latStep := Some x\<rparr> else inps\<lparr>lonStep := Some x\<rparr>))
      else if key \<in> set [''interpMethod''] then Inr (inps\<lparr>interpMethod := v\<rparr>)
      else if key = ''fillValue'' then
        (if contains ''nan'' (lower v) then Inr (inps\<lparr>fillValue := nan ops\<rparr>)
         else ebind (of_opt ValueError (float_of_str ops v)) (\<lambda>x. Inr (inps\<lparr>fillValue := x\<rparr>)))
      else Inr inps)"

definition template_step ::
  "'f pyops \<Rightarrow> (string \<times> string option) list \<Rightarrow> string \<Rightarrow> 'f inps \<Rightarrow> error + 'f inps" where
  "template_step ops template key inps =
     (case map_of template (prefix_geocode @ key) of
        None \<Rightarrow> Inl KeyError
      | Some None \<Rightarrow> Inr inps
      | Some (Some v) \<Rightarrow> (if v \<noteq> [] then set_from_template ops key v inps else Inr inps))"

fun efold :: "('a \<Rightarrow> 'b \<Rightarrow> error + 'b) \<Rightarrow> 'a list \<Rightarrow> 'b \<Rightarrow> error + 'b" where
  "efold f [] s = Inr s"
| "efold f (x # xs) s = ebind (f x s) (efold f xs)"

definition read_template2inps ::
  "'f pyops \<Rightarrow> ('f, 'w, 'd) env \<Rightarrow> 'w \<Rightarrow> string \<Rightarrow> 'f inps \<Rightarrow> error + 'f inps" where
  "read_template2inps ops env w template_file inps =
     (let template = check_template_auto_value (read_template env w template_file);
          key_list = filter (\<lambda>i. prefix_geocode @ i \<in> keys template) inps_keys
      in ebind (efold (template_step ops template) key_list inps) (\<lambda>inps. Inr (set_laloStep inps)))"

text \<open>\<^verbatim>\<open>_check_inps\<close>.\<close>

definition check_inps :: "('f, 'w, 'd) env \<Rightarrow> 'w \<Rightarrow> 'f inps \<Rightarrow> 'f inps outcome" where
  "check_inps env w inps0 =
     (let inps = inps0\<lparr>file_list := get_file_list env w (file_list inps0)\<rparr>
      in case file_list inps of
           [] \<Rightarrow> Raise (Exception ''ERROR: no input file found!'')
         | f0 # fs \<Rightarrow>
             (let inps = (if length (file_list inps) > 1 then inps\<lparr>outfile := None\<rparr> else inps);
                  atr = read_attribute env w f0 None
              in if ''Y_FIRST'' \<in> keys atr \<and> radar2geo inps then Raise (SystemExit 0)
                 else if ''Y_FIRST'' \<notin> keys atr \<and> \<not> radar2geo inps then Raise (SystemExit 0)
                 else
                   (let inps = inps\<lparr>lookupFile := get_lookup_file env w (lookupFile inps)\<rparr>
                    in if \<not> truthy (lookupFile inps) then Raise FileNotFoundError
                       else Return (set_laloStep inps))))"

section \<open>Output names\<close>

definition auto_output_filename :: "string \<Rightarrow> 'f inps \<Rightarrow> string" where
  "auto_output_filename infile inps =
     (case (if length (file_list inps) = 1 then outfile inps else None) of
        Some (c # cs) \<Rightarrow> c # cs
      | _ \<Rightarrow>
          (let prefix = (if radar2geo inps then ''geo_'' else ''rdr_'');
               out = (case dset inps of
                        Some (c # cs) \<Rightarrow> prefix @ (c # cs) @ ''.h5''
                      | _ \<Rightarrow> prefix @ basename infile)
           in case out_dir inps of
                Some (c # cs) \<Rightarrow> path_join (c # cs) out
              | _ \<Rightarrow> out))"

section \<open>The batch run\<close>

text \<open>
  What a run does to the outside is kept as a trace: one event for each call of the
  resample engine, one for each warning and one for each file written.
\<close>

datatype ('f, 'd) event =
    EvResample string string
  | EvWarn string
  | EvWrite "(string \<times> 'd) list" string "'f attr" "string option"

text \<open>\<^verbatim>\<open>resample_data\<close>.\<close>

definition resample_data :: "('f, 'w, 'd) env \<Rightarrow> 'd \<Rightarrow> 'f inps \<Rightarrow> nat \<Rightarrow> 'f res_obj \<Rightarrow> 'd" where
  "resample_data env data0 inps nprocs res =
     (let data = (if ndim env data0 = 3 then moveaxis env data0 0 (- 1) else data0);
          geo_data = resample env res data (interpMethod inps) (fillValue inps) nprocs
      in if ndim env geo_data = 3 then moveaxis env geo_data (- 1) 0 else geo_data)"

text \<open>The loop over \<^verbatim>\<open>dsNames\<close> that fills \<^verbatim>\<open>dsResDict\<close>.\<close>

definition resample_datasets ::
  "('f, 'w, 'd) env \<Rightarrow> 'w \<Rightarrow> 'f inps \<Rightarrow> nat \<Rightarrow> 'f res_obj \<Rightarrow> string \<Rightarrow> string list \<Rightarrow>
   ('f, 'd) event list \<Rightarrow> (string \<times> 'd) list \<times> ('f, 'd) event list" where
  "resample_datasets env w inps nprocs res infile dsNames tr =
     fold (\<lambda>dsName (dsResDict, tr).
             (AList.update dsName
                (resample_data env (read_data env w infile dsName) inps nprocs res) dsResDict,
              tr @ [EvResample infile dsName]))
          dsNames ([], tr)"

text \<open>
  The loop over \<^verbatim>\<open>inps.file\<close>. \<open>last_out\<close> is the variable \<^verbatim>\<open>outfile\<close>, unbound
  before the first iteration. The \<^verbatim>\<open>return outfile\<close> of update mode ends the loop.
\<close>

fun run_files ::
  "'f pyops \<Rightarrow> ('f, 'w, 'd) env \<Rightarrow> 'f inps \<Rightarrow> nat \<Rightarrow> 'f res_obj \<Rightarrow> string list \<Rightarrow>
   'w \<Rightarrow> ('f, 'd) event list \<Rightarrow> string option \<Rightarrow> error + ('w \<times> ('f, 'd) event list \<times> string)" where
  "run_files ops env inps nprocs res [] w tr last_out =
     ebind (of_opt (Exception ''UnboundLocalError'') last_out) (\<lambda>out. Inr (w, tr, out))"
| "run_files ops env inps nprocs res (infile # rest) w tr last_out =
     (let out = auto_output_filename infile inps
      in if updateMode inps \<and> \<not> update_file env w out [Some infile, lookupFile inps]
         then Inr (w, tr, out)
         else
           (let dsNames = get_dataset_list env w infile (dset inps)
            in if dsNames = [] then Inl ValueError
               else
                 (case resample_datasets env w inps nprocs res infile dsNames tr of
                    (dsResDict, tr1) \<Rightarrow>
                      ebind (if radar2geo inps
                             then metadata_radar2geo ops env w (read_attribute env w infile (dset inps)) res
                             else Inr (metadata_geo2radar (read_attribute env w infile (dset inps)) res, []))
                        (\<lambda>(atr, warns).
                           (let single = (length dsNames = 1 \<and> last dsNames \<notin> set [''timeseries'']);
                                atr1 = (if single then AList.update ''FILE_TYPE'' (PStr (hd dsNames)) atr else atr);
                                ref_file = (if single then None else Some infile);
                                tr2 = tr1 @ map EvWarn warns @ [EvWrite dsResDict out atr1 ref_file]
                            in run_files ops env inps nprocs res rest
                                 (write_file env w dsResDict out atr1 ref_file) tr2 (Some out))))))"

text \<open>\<^verbatim>\<open>run_resample\<close>: the geometry is built once, from the first file.\<close>

definition run_resample ::
  "'f pyops \<Rightarrow> ('f, 'w, 'd) env \<Rightarrow> 'w \<Rightarrow> 'f inps \<Rightarrow> error + ('w \<times> ('f, 'd) event list \<times> string)" where
  "run_resample ops env w inps =
     (case file_list inps of
        [] \<Rightarrow> Inl IndexError
      | f0 # fs \<Rightarrow>
          (let res = get_geometry_definition env w (lookupFile inps) f0 (SNWE inps) (laloStep inps);
               nprocs = cpu_count env
           in run_files ops env inps nprocs res (file_list inps) w [] None))"

text \<open>\<^verbatim>\<open>main\<close>, on the command line already parsed.\<close>

definition apply_template :: "'f pyops \<Rightarrow> ('f, 'w, 'd) env \<Rightarrow> 'w \<Rightarrow> 'f inps \<Rightarrow> error + 'f inps" where
  "apply_template ops env w inps0 =
     (case templateFile inps0 of
        Some (c # cs) \<Rightarrow> read_template2inps ops env w (c # cs) inps0
      | _ \<Rightarrow> Inr inps0)"

definition main ::
  "'f pyops \<Rightarrow> ('f, 'w, 'd) env \<Rightarrow> 'w \<Rightarrow> 'f inps \<Rightarrow> ('w \<times> ('f, 'd) event list) outcome" where
  "main ops env w inps0 =
     (case apply_template ops env w inps0 of
        Inl e \<Rightarrow> Raise e
      | Inr inps1 \<Rightarrow>
          (case check_inps env w inps1 of
             Raise e \<Rightarrow> Raise e
           | Return inps \<Rightarrow>
               (case run_resample ops env w inps of
                  Inl e \<Rightarrow> Raise e
                | Inr (w', tr, out) \<Rightarrow> Return (w', tr))))"

section \<open>An instance of the floating-point operations\<close>

text \<open>
  Exact rational arithmetic with a NaN, with the conventions of Python floats
  (\<^verbatim>\<open>int(nan)\<close> raises ValueError, a division by zero raises ZeroDivisionError,
  \<^verbatim>\<open>rint\<close> rounds a half to the even neighbour). It serves to run the definitions on
  concrete inputs. Its parsers read plain decimal notation only.
\<close>

datatype qfloat = NaN | Fin rat

definition digit_val :: "char \<Rightarrow> nat option" where
  "digit_val c =
     (if 48 \<le> (of_char c :: nat) \<and> (of_char c :: nat) \<le> 57 then Some ((of_char c :: nat) - 48) else None)"

definition nat_of_digits :: "string \<Rightarrow> nat option" where
  "nat_of_digits s =
     (if s = [] then None
      else map_option (foldl (\<lambda>a d. 10 * a + d) 0) (those (map digit_val s)))"

definition q_int_of_str :: "string \<Rightarrow> int option" where
  "q_int_of_str s =
     (case s of
        [] \<Rightarrow> None
      | c # cs \<Rightarrow>
          (if c = CHR ''-'' then map_option (\<lambda>n. - int n) (nat_of_digits cs)
           else map_option int (nat_of_digits s)))"

definition q_unsigned :: "string \<Rightarrow> rat option" where
  "q_unsigned s =
     (case split_on CHR ''.'' s of
        [a] \<Rightarrow> map_option of_nat (nat_of_digits a)
      | [a, b] \<Rightarrow>
          (case (nat_of_digits a, nat_of_digits b) of
             (Some m, Some n) \<Rightarrow> Some (of_nat m + of_nat n / 10 ^ length b)
           | _ \<Rightarrow> None)
      | _ \<Rightarrow> None)"

definition q_float_of_str :: "string \<Rightarrow> qfloat option" where
  "q_float_of_str s =
     (if s = ''nan'' then Some NaN
      else case s of
        [] \<Rightarrow> None
      | c # cs \<Rightarrow>
          (if c = CHR ''-'' then map_option (\<lambda>q. Fin (- q)) (q_unsigned cs)
           else map_option Fin (q_unsigned s)))"

definition q_trunc :: "rat \<Rightarrow> int" where
  "q_trunc q = (if 0 \<le> q then \<lfloor>q\<rfloor> else \<lceil>q\<rceil>)"

definition q_rint :: "rat \<Rightarrow> int" where
  "q_rint q =
     (let f = \<lfloor>q\<rfloor>; d = q - of_int f
      in if d < 1 / 2 then f else if 1 / 2 < d then f + 1 else if even f then f else f + 1)"

definition q_str :: "qfloat \<Rightarrow> string" where
  "q_str x =
     (case x of
        NaN \<Rightarrow> ''nan''
      | Fin q \<Rightarrow>
          (if q = of_int \<lfloor>q\<rfloor> then str_of_int \<lfloor>q\<rfloor> @ ''.0''
           else str_of_int (fst (quotient_of q)) @ ''/'' @ str_of_int (snd (quotient_of q))))"

definition qops :: "qfloat pyops" where
  "qops =
     \<lparr> float_of_str = q_float_of_str,
       float_of_int = (\<lambda>i. Inr (Fin (of_int i))),
       int_of_str = q_int_of_str,
       int_of_float = (\<lambda>x. case x of NaN \<Rightarrow> Inl ValueError | Fin q \<Rightarrow> Inr (q_trunc q)),
       str_of_float = q_str,
       nan = NaN,
       isnan = (\<lambda>x. x = NaN),
       fsub = (\<lambda>x y. case (x, y) of (Fin a, Fin b) \<Rightarrow> Fin (a - b) | _ \<Rightarrow> NaN),
       fdiv = (\<lambda>x y. case (x, y) of
                 (Fin a, Fin b) \<Rightarrow> (if b = 0 then Inl ZeroDivisionError else Inr (Fin (a / b)))
               | _ \<Rightarrow> (if y = Fin 0 then Inl ZeroDivisionError else Inr NaN)),
       rint = (\<lambda>x. case x of NaN \<Rightarrow> NaN | Fin q \<Rightarrow> Fin (of_int (q_rint q))) \<rparr>"

section \<open>The template value of a field\<close>

text \<open>
  The value that the template gives for a field of the request, after
  \<^verbatim>\<open>check_template_auto_value\<close>: \<open>None\<close> when the template has no such key, when the
  value is \<^verbatim>\<open>auto\<close> and when it is empty.
\<close>

definition template_lookup :: "(string \<times> string option) list \<Rightarrow> string \<Rightarrow> string option" where
  "template_lookup template key =
     (case map_of template (prefix_geocode @ key) of
        Some (Some v) \<Rightarrow> (if v \<noteq> [] then Some v else None)
      | _ \<Rightarrow> None)"

definition template_value :: "('f, 'w, 'd) env \<Rightarrow> 'w \<Rightarrow> string \<Rightarrow> string \<Rightarrow> string option" where
  "template_value env w template_file key =
     template_lookup (check_template_auto_value (read_template env w template_file)) key"

section \<open>Values that are strings\<close>

definition is_str :: "'f pyval \<Rightarrow> bool" where
  "is_str v = (case v of PStr s \<Rightarrow> True | _ \<Rightarrow> False)"

definition all_str :: "'f attr \<Rightarrow> bool" where
  "all_str atr = list_all (\<lambda>(k, v). is_str v) atr"

definition geo_keys :: "string list" where
  "geo_keys = [''LENGTH'', ''WIDTH'', ''Y_FIRST'', ''X_FIRST'', ''Y_STEP'', ''X_STEP'', ''Y_UNIT'', ''X_UNIT'']"

definition ref_keys :: "string list" where
  "ref_keys = [''REF_Y'', ''REF_X'', ''REF_LAT'', ''REF_LON'']"

section \<open>Concrete inputs\<close>

text \<open>
  A geometry, an environment and a command line on which the definitions are run. The
  environment is given by the attributes of each file, the template, the list of output
  files that are up to date, the lookup table found by the search, and the coordinates
  that the lookup gives for the reference pixel.
\<close>

definition example_res :: "qfloat res_obj" where
  "example_res =
     \<lparr> res_length = 100, res_width = 200,
       res_SNWE = (Fin (- 1), Fin 1, Fin 10, Fin 12),
       res_laloStep = (Fin (- 1 / 50), Fin (1 / 100)),
       res_file = Some ''geometryRadar.h5'' \<rparr>"

definition example_env ::
  "(string \<Rightarrow> qfloat attr) \<Rightarrow> (string \<times> string) list \<Rightarrow> string list \<Rightarrow> string option \<Rightarrow>
   qfloat \<times> qfloat \<Rightarrow> (qfloat, unit, nat) env" where
  "example_env atr_of template fresh lookup glob =
     \<lparr> get_file_list = (\<lambda>w fs. fs),
       get_lookup_file = (\<lambda>w l. case l of Some p \<Rightarrow> Some p | None \<Rightarrow> lookup),
       read_attribute = (\<lambda>w f d. atr_of f),
       read_template = (\<lambda>w f. template),
       radar2glob = (\<lambda>w y x f a. glob),
       get_geometry_definition = (\<lambda>w l f s st. example_res),
       cpu_count = 4,
       update_file = (\<lambda>w out deps. out \<notin> set fresh),
       get_dataset_list = (\<lambda>w f d. case d of Some n \<Rightarrow> [n] | None \<Rightarrow> [''velocity'']),
       read_data = (\<lambda>w f n. 0),
       ndim = (\<lambda>d. 2),
       moveaxis = (\<lambda>d a b. d),
       resample = (\<lambda>res d m f n. d),
       write_file = (\<lambda>w ds out atr ref. w) \<rparr>"

definition example_inps :: "qfloat inps" where
  "example_inps =
     \<lparr> file_list = [''velocity.h5''], dset = None, radar2geo = True, lookupFile = None,
       templateFile = None, SNWE = None, latStep = None, lonStep = None,
       interpMethod = ''nearest'', fillValue = NaN, updateMode = False,
       outfile = None, out_dir = None, laloStep = None \<rparr>"

definition no_attributes :: "string \<Rightarrow> qfloat attr" where
  "no_attributes f = []"

definition geocoded_attributes :: "string \<Rightarrow> qfloat attr" where
  "geocoded_attributes f = [(''Y_FIRST'', PStr ''1.0'')]"

section \<open>Properties of the dictionaries\<close>

lemma keys_delete: "keys (AList.delete k d) = keys d - {k}"
  by (induction d) (auto simp: keys_def)

lemma keys_update: "keys (AList.update k v d) = insert k (keys d)"
  by (simp add: keys_def dom_update)

lemma try_pops_single: "try_pops [k] d = AList.delete k d"
  by (simp add: pop_def keys_def)

lemma map_of_in_keys: "(map_of d k = None) = (k \<notin> keys d)"
  by (simp add: keys_def map_of_eq_None_iff)

lemma geo2radar_unfold:
  "metadata_geo2radar atr res =
     AList.delete ''REF_LON'' (AList.delete ''REF_LAT'' (AList.delete ''REF_X'' (AList.delete ''REF_Y''
    (AList.delete ''X_UNIT'' (AList.delete ''Y_UNIT'' (AList.delete ''X_STEP'' (AList.delete ''Y_STEP''
    (AList.delete ''X_FIRST'' (AList.delete ''Y_FIRST''
    (AList.update ''WIDTH'' (PInt (res_width res))
    (AList.update ''LENGTH'' (PInt (res_length res)) atr)))))))))))"
  by (simp add: metadata_geo2radar_def removal_keys_def try_pops_single del: try_pops.simps delete_id)

lemma geo2radar_keys:
  "keys (metadata_geo2radar atr res) = insert ''LENGTH'' (insert ''WIDTH'' (keys atr)) - set removal_keys"
  unfolding geo2radar_unfold keys_delete keys_update removal_keys_def by auto

lemma geo2radar_LENGTH:
  "map_of (metadata_geo2radar atr res) ''LENGTH'' = Some (PInt (res_length res))"
  unfolding geo2radar_unfold by (simp add: update_conv' del: delete_id)

lemma geo2radar_WIDTH:
  "map_of (metadata_geo2radar atr res) ''WIDTH'' = Some (PInt (res_width res))"
  unfolding geo2radar_unfold by (simp add: update_conv' del: delete_id)

lemma geo2radar_fixed:
  assumes "map_of d ''LENGTH'' = Some (PInt (res_length res))"
      and "map_of d ''WIDTH'' = Some (PInt (res_width res))"
      and "keys d \<inter> set removal_keys = {}"
  shows "metadata_geo2radar d res = d"
proof -
  have a: "AList.update ''LENGTH'' (PInt (res_length res)) d = d"
    using assms(1) by (rule update_triv)
  have b: "AList.update ''WIDTH'' (PInt (res_width res)) d = d"
    using assms(2) by (rule update_triv)
  have c: "\<And>k. k \<in> set removal_keys \<Longrightarrow> AList.delete k d = d"
    using assms(3) by (intro delete_id) (auto simp: keys_def)
  show ?thesis
    unfolding geo2radar_unfold a b by (simp add: c removal_keys_def del: delete_id)
qed

text \<open>
  Claim C7. The GeoToRadar transform is idempotent for every input dictionary and
  geometry: a second application returns the very same dictionary (same entries, same
  order). None of the ten removal keys is a key of the result, and
  \<^verbatim>\<open>LENGTH\<close>/\<^verbatim>\<open>WIDTH\<close> hold the grid size of the geometry.
\<close>

theorem geo2radar_idempotent:
  "metadata_geo2radar (metadata_geo2radar atr res) res = metadata_geo2radar atr res
   \<and> keys (metadata_geo2radar atr res) \<inter> set removal_keys = {}
   \<and> map_of (metadata_geo2radar atr res) ''LENGTH'' = Some (PInt (res_length res))
   \<and> map_of (metadata_geo2radar atr res) ''WIDTH'' = Some (PInt (res_width res))"
proof -
  have k: "keys (metadata_geo2radar atr res) \<inter> set removal_keys = {}"
    by (auto simp: geo2radar_keys)
  show ?thesis
    using geo2radar_fixed [OF geo2radar_LENGTH geo2radar_WIDTH k] k geo2radar_LENGTH geo2radar_WIDTH
    by blast
qed

section \<open>Resolution of the request\<close>


lemma set_laloStep_eq:
  "laloStep (set_laloStep i) =
     (case (latStep i, lonStep i) of (Some a, Some b) \<Rightarrow> Some [a, b] | _ \<Rightarrow> None)"
  "latStep (set_laloStep i) = latStep i" "lonStep (set_laloStep i) = lonStep i"
  by (auto simp: set_laloStep_def Let_def split: option.splits)

lemma check_inps_Return:
  assumes "check_inps env w i = Return i'"
  shows "\<exists>j. i' = set_laloStep j"
  using assms
  by (auto simp: check_inps_def Let_def split: list.splits if_splits)

lemma read_template_Inr:
  assumes "read_template2inps ops env w tf i = Inr i'"
  shows "\<exists>j. i' = set_laloStep j"
  using assms
  by (auto simp: read_template2inps_def Let_def ebind_def split: sum.splits)

text \<open>
  Claim C4. After template resolution (\<^verbatim>\<open>read_template2inps\<close>) and after
  command-line resolution (\<^verbatim>\<open>_check_inps\<close>) alike, the resolved grid step is the
  pair of both steps when both are set, and absent when either step is unset.
\<close>

theorem laloStep_both_or_neither:
  assumes "read_template2inps ops env w tf i = Inr i' \<or> check_inps env' w' i = Return i'"
  shows "laloStep i' = (case (latStep i', lonStep i') of (Some a, Some b) \<Rightarrow> Some [a, b] | _ \<Rightarrow> None)"
proof -
  from assms have "\<exists>j. i' = set_laloStep j"
  proof
    assume "read_template2inps ops env w tf i = Inr i'"
    then show ?thesis by (rule read_template_Inr)
  next
    assume "check_inps env' w' i = Return i'"
    then show ?thesis by (rule check_inps_Return)
  qed
  then obtain j where "i' = set_laloStep j" ..
  then show ?thesis by (simp add: set_laloStep_eq)
qed

lemma example_check:
  "check_inps (example_env (\<lambda>f. []) [] [] (Some ''geometryRadar.h5'') (NaN, NaN)) ()
     (example_inps\<lparr>latStep := Some (Fin 1)\<rparr>)
   = Return (example_inps\<lparr>latStep := Some (Fin 1), lookupFile := Some ''geometryRadar.h5''\<rparr>)"
  by (simp add: check_inps_def example_env_def example_inps_def keys_def truthy_def set_laloStep_def)

theorem laloStep_both_or_neither_witness:
  "check_inps (example_env (\<lambda>f. []) [] [] (Some ''geometryRadar.h5'') (NaN, NaN)) ()
     (example_inps\<lparr>latStep := Some (Fin 1)\<rparr>)
   = Return (example_inps\<lparr>latStep := Some (Fin 1), lookupFile := Some ''geometryRadar.h5''\<rparr>)
   \<and> laloStep (example_inps\<lparr>latStep := Some (Fin 1), lookupFile := Some ''geometryRadar.h5''\<rparr>) = None"
  using laloStep_both_or_neither [OF disjI2 [OF example_check]] example_check
  by (simp add: example_inps_def)

section \<open>The direction check\<close>

lemma check_inps_cases:
  assumes "get_file_list env w (file_list i) = f0 # fs"
  shows "check_inps env w i =
     (if (''Y_FIRST'' \<in> keys (read_attribute env w f0 None)) = radar2geo i then Raise (SystemExit 0)
      else if truthy (get_lookup_file env w (lookupFile i))
      then Return (set_laloStep
             (i\<lparr>file_list := f0 # fs,
                outfile := (if fs = [] then outfile i else None),
                lookupFile := get_lookup_file env w (lookupFile i)\<rparr>))
      else Raise FileNotFoundError)"
  using assms by (cases fs) (auto simp: check_inps_def Let_def)

lemma check_inps_no_files:
  "get_file_list env w (file_list i) = [] \<Longrightarrow>
   check_inps env w i = Raise (Exception ''ERROR: no input file found!'')"
  by (simp add: check_inps_def)

lemma main_Raise:
  "apply_template ops env w i0 = Inr i \<Longrightarrow> check_inps env w i = Raise e \<Longrightarrow> main ops env w i0 = Raise e"
  by (simp add: main_def)

lemma main_Return:
  "apply_template ops env w i0 = Inr i \<Longrightarrow> check_inps env w i = Return i' \<Longrightarrow>
   main ops env w i0 =
     (case run_resample ops env w i' of Inl e \<Rightarrow> Raise e | Inr (w', tr, out) \<Rightarrow> Return (w', tr))"
  by (simp add: main_def)

lemma example_files:
  "get_file_list (example_env a t f l g) () (file_list example_inps) = ''velocity.h5'' # []"
  by (simp add: example_env_def example_inps_def)

lemma example_run:
  "run_resample qops (example_env no_attributes [] [] (Some ''geometryRadar.h5'') (NaN, NaN)) ()
     (example_inps\<lparr>lookupFile := Some ''geometryRadar.h5''\<rparr>)
   = Inr ((),
          [EvResample ''velocity.h5'' ''velocity'',
           EvWrite [(''velocity'', 0)] ''geo_velocity.h5''
             [(''LENGTH'', PInt 100), (''WIDTH'', PInt 200),
              (''Y_FIRST'', PFloat (Fin 1)), (''X_FIRST'', PFloat (Fin 10)),
              (''Y_STEP'', PFloat (Fin (- (1 / 50)))), (''X_STEP'', PFloat (Fin (1 / 100))),
              (''Y_UNIT'', PStr ''degrees''), (''X_UNIT'', PStr ''degrees''),
              (''FILE_TYPE'', PStr ''velocity'')]
             None],
          ''geo_velocity.h5'')"
  by code_simp

text \<open>
  Claim C3, as the code has it. When the first input file is already in the requested
  coordinate system (\<^verbatim>\<open>Y_FIRST\<close> present and RadarToGeo requested, or absent and
  GeoToRadar requested), \<^verbatim>\<open>_check_inps\<close> calls \<^verbatim>\<open>sys.exit(0)\<close>: it raises
  \<^verbatim>\<open>SystemExit\<close> with status 0, and \<^verbatim>\<open>main\<close>, which catches nothing, ends with that
  same exception and returns no value; this holds whatever the lookup search, the
  resample engine and the writer would have done. In the two other cases processing
  proceeds: without a lookup table the check and the run raise
  \<^verbatim>\<open>FileNotFoundError\<close>, and with one the check returns the resolved request and the
  run is \<^verbatim>\<open>run_resample\<close> on that request, returning when it returns and raising what
  it raises.
\<close>

theorem direction_guard:
  assumes "get_file_list env w (file_list i) = f0 # fs"
  shows "((''Y_FIRST'' \<in> keys (read_attribute env w f0 None)) = radar2geo i \<longrightarrow>
            check_inps env w i = Raise (SystemExit 0) \<and>
            (apply_template ops env w i0 = Inr i \<longrightarrow> main ops env w i0 = Raise (SystemExit 0)))
       \<and> ((''Y_FIRST'' \<in> keys (read_attribute env w f0 None)) \<noteq> radar2geo i \<and>
          \<not> truthy (get_lookup_file env w (lookupFile i)) \<longrightarrow>
            check_inps env w i = Raise FileNotFoundError \<and>
            (apply_template ops env w i0 = Inr i \<longrightarrow> main ops env w i0 = Raise FileNotFoundError))
       \<and> ((''Y_FIRST'' \<in> keys (read_attribute env w f0 None)) \<noteq> radar2geo i \<and>
          truthy (get_lookup_file env w (lookupFile i)) \<longrightarrow>
            check_inps env w i =
              Return (set_laloStep
                (i\<lparr>file_list := f0 # fs,
                   outfile := (if fs = [] then outfile i else None),
                   lookupFile := get_lookup_file env w (lookupFile i)\<rparr>)) \<and>
            (apply_template ops env w i0 = Inr i \<longrightarrow>
               main ops env w i0 =
                 (case run_resample ops env w
                         (set_laloStep
                           (i\<lparr>file_list := f0 # fs,
                              outfile := (if fs = [] then outfile i else None),
                              lookupFile := get_lookup_file env w (lookupFile i)\<rparr>)) of
                    Inl e \<Rightarrow> Raise e
                  | Inr (w', tr, out) \<Rightarrow> Return (w', tr))))"
proof (intro conjI impI)
  assume m: "(''Y_FIRST'' \<in> keys (read_attribute env w f0 None)) = radar2geo i"
  show c: "check_inps env w i = Raise (SystemExit 0)"
    using check_inps_cases [OF assms] m by simp
  assume "apply_template ops env w i0 = Inr i"
  then show "main ops env w i0 = Raise (SystemExit 0)"
    using c by (rule main_Raise)
next
  assume m: "(''Y_FIRST'' \<in> keys (read_attribute env w f0 None)) \<noteq> radar2geo i \<and>
          \<not> truthy (get_lookup_file env w (lookupFile i))"
  show c: "check_inps env w i = Raise FileNotFoundError"
    using check_inps_cases [OF assms] m by simp
  assume "apply_template ops env w i0 = Inr i"
  then show "main ops env w i0 = Raise FileNotFoundError"
    using c by (rule main_Raise)
next
  assume m: "(''Y_FIRST'' \<in> keys (read_attribute env w f0 None)) \<noteq> radar2geo i \<and>
          truthy (get_lookup_file env w (lookupFile i))"
  show c: "check_inps env w i =
              Return (set_laloStep
                (i\<lparr>file_list := f0 # fs,
                   outfile := (if fs = [] then outfile i else None),
                   lookupFile := get_lookup_file env w (lookupFile i)\<rparr>))"
    using check_inps_cases [OF assms] m by simp
  assume "apply_template ops env w i0 = Inr i"
  then show "main ops env w i0 =
                 (case run_resample ops env w
                         (set_laloStep
                           (i\<lparr>file_list := f0 # fs,
                              outfile := (if fs = [] then outfile i else None),
                              lookupFile := get_lookup_file env w (lookupFile i)\<rparr>)) of
                    Inl e \<Rightarrow> Raise e
                  | Inr (w', tr, out) \<Rightarrow> Return (w', tr))"
    using c by (rule main_Return)
qed

text \<open>
  The theorem on a geocoded file with RadarToGeo requested, on a radar-coded file with
  RadarToGeo requested and no lookup table, and on a radar-coded file with RadarToGeo
  requested and a lookup table: the last run resamples the dataset and writes
  \<^verbatim>\<open>geo_velocity.h5\<close>.
\<close>

theorem direction_guard_witness:
  "check_inps (example_env geocoded_attributes [] [] (Some ''geometryRadar.h5'') (NaN, NaN))
     () example_inps = Raise (SystemExit 0)
   \<and> main qops (example_env geocoded_attributes [] [] (Some ''geometryRadar.h5'') (NaN, NaN))
     () example_inps = Raise (SystemExit 0)
   \<and> check_inps (example_env no_attributes [] [] None (NaN, NaN)) () example_inps
     = Raise FileNotFoundError
   \<and> main qops (example_env no_attributes [] [] None (NaN, NaN)) () example_inps
     = Raise FileNotFoundError
   \<and> check_inps (example_env no_attributes [] [] (Some ''geometryRadar.h5'') (NaN, NaN)) () example_inps
     = Return (example_inps\<lparr>lookupFile := Some ''geometryRadar.h5''\<rparr>)
   \<and> main qops (example_env no_attributes [] [] (Some ''geometryRadar.h5'') (NaN, NaN)) () example_inps
     = Return ((),
          [EvResample ''velocity.h5'' ''velocity'',
           EvWrite [(''velocity'', 0)] ''geo_velocity.h5''
             [(''LENGTH'', PInt 100), (''WIDTH'', PInt 200),
              (''Y_FIRST'', PFloat (Fin 1)), (''X_FIRST'', PFloat (Fin 10)),
              (''Y_STEP'', PFloat (Fin (- (1 / 50)))), (''X_STEP'', PFloat (Fin (1 / 100))),
              (''Y_UNIT'', PStr ''degrees''), (''X_UNIT'', PStr ''degrees''),
              (''FILE_TYPE'', PStr ''velocity'')]
             None])"
  using direction_guard [OF example_files, of geocoded_attributes "[]" "[]"
      "Some ''geometryRadar.h5''" "(NaN, NaN)" qops example_inps]
    direction_guard [OF example_files, of no_attributes "[]" "[]"
      None "(NaN, NaN)" qops example_inps]
    direction_guard [OF example_files, of no_attributes "[]" "[]"
      "Some ''geometryRadar.h5''" "(NaN, NaN)" qops example_inps]
    example_run
  by (simp add: example_env_def example_inps_def keys_def truthy_def set_laloStep_def
        apply_template_def geocoded_attributes_def no_attributes_def)

text \<open>
  The no-op reaches the caller of \<^verbatim>\<open>main\<close> as an exception: on a geocoded file with
  RadarToGeo requested, \<^verbatim>\<open>main\<close> raises \<^verbatim>\<open>SystemExit(0)\<close> and returns nothing.
\<close>

theorem direction_guard_counterexample:
  "main qops (example_env geocoded_attributes [] [] (Some ''geometryRadar.h5'') (NaN, NaN))
     () example_inps = Raise (SystemExit 0)"
  by code_simp

text \<open>
  Claim C10. The direction check comes before the lookup table is resolved: a run whose
  first file is already in the requested system ends with \<^verbatim>\<open>sys.exit(0)\<close> also when no
  lookup table is found, and the missing-lookup-table error is raised only when there are
  input files and the direction check decided to proceed.
\<close>

theorem noop_precedes_lookup:
  "(get_file_list env w (file_list i) = f0 # fs \<and>
    (''Y_FIRST'' \<in> keys (read_attribute env w f0 None)) = radar2geo i \<and>
    \<not> truthy (get_lookup_file env w (lookupFile i)) \<longrightarrow> check_inps env w i = Raise (SystemExit 0))
   \<and> (check_inps env w i = Raise FileNotFoundError \<longrightarrow>
        (\<exists>g0 gs. get_file_list env w (file_list i) = g0 # gs \<and>
           (''Y_FIRST'' \<in> keys (read_attribute env w g0 None)) \<noteq> radar2geo i \<and>
           \<not> truthy (get_lookup_file env w (lookupFile i))))"
proof (intro conjI impI)
  assume "get_file_list env w (file_list i) = f0 # fs \<and>
    (''Y_FIRST'' \<in> keys (read_attribute env w f0 None)) = radar2geo i \<and>
    \<not> truthy (get_lookup_file env w (lookupFile i))"
  then show "check_inps env w i = Raise (SystemExit 0)"
    using check_inps_cases [of env w i f0 fs] by simp
next
  assume r: "check_inps env w i = Raise FileNotFoundError"
  show "\<exists>g0 gs. get_file_list env w (file_list i) = g0 # gs \<and>
           (''Y_FIRST'' \<in> keys (read_attribute env w g0 None)) \<noteq> radar2geo i \<and>
           \<not> truthy (get_lookup_file env w (lookupFile i))"
  proof (cases "get_file_list env w (file_list i)")
    case Nil
    with r show ?thesis by (simp add: check_inps_no_files)
  next
    case (Cons g0 gs)
    with r check_inps_cases [OF Cons] show ?thesis
      by (auto split: if_splits)
  qed
qed

theorem noop_precedes_lookup_witness:
  "check_inps (example_env (\<lambda>f. [(''Y_FIRST'', PStr ''1.0'')]) [] [] None (NaN, NaN)) () example_inps
     = Raise (SystemExit 0)
   \<and> check_inps (example_env (\<lambda>f. []) [] [] None (NaN, NaN)) () example_inps = Raise FileNotFoundError
   \<and> ''Y_FIRST'' \<notin> keys (read_attribute (example_env (\<lambda>f. []) [] [] None (NaN, NaN)) () ''velocity.h5'' None)
   \<and> radar2geo example_inps"
  using noop_precedes_lookup [of "example_env (\<lambda>f. [(''Y_FIRST'', PStr ''1.0'')]) [] [] None (NaN, NaN)"
      "()" example_inps "''velocity.h5''" "[]"]
    noop_precedes_lookup [of "example_env (\<lambda>f. []) [] [] None (NaN, NaN)"
      "()" example_inps "''velocity.h5''" "[]"]
  by (simp add: example_env_def example_inps_def keys_def truthy_def check_inps_def)

section \<open>Output names\<close>

text \<open>
  Claim C9, as amended. With exactly one input file and a non-empty \<^verbatim>\<open>--output\<close>, that
  path is the output name. Otherwise the name is the prefix \<^verbatim>\<open>geo_\<close> (RadarToGeo) or
  \<^verbatim>\<open>rdr_\<close> (GeoToRadar), followed by the dataset name and the extension \<^verbatim>\<open>.h5\<close> when a
  non-empty \<^verbatim>\<open>--dset\<close> is given, and by the base name of the input file otherwise; with
  a non-empty \<^verbatim>\<open>--outdir\<close> the name is joined to that directory.
\<close>

theorem output_filename_derivation:
  "auto_output_filename infile i =
     (if length (file_list i) = 1 \<and> truthy (outfile i) then the (outfile i)
      else if truthy (out_dir i)
      then (if last (the (out_dir i)) = CHR ''/'' then the (out_dir i) else the (out_dir i) @ ''/'')
           @ (if radar2geo i then ''geo_'' else ''rdr_'')
           @ (if truthy (dset i) then the (dset i) @ ''.h5'' else basename infile)
      else (if radar2geo i then ''geo_'' else ''rdr_'')
           @ (if truthy (dset i) then the (dset i) @ ''.h5'' else basename infile))"
proof -
  have j: "\<And>d n. d \<noteq> [] \<Longrightarrow>
      path_join d ((if radar2geo i then ''geo_'' else ''rdr_'') @ n) =
      (if last d = CHR ''/'' then d else d @ ''/'') @ (if radar2geo i then ''geo_'' else ''rdr_'') @ n"
    by (simp add: path_join_def)
  show ?thesis
  proof (cases "length (file_list i) = 1 \<and> truthy (outfile i)")
    case True
    then show ?thesis
      by (auto simp: auto_output_filename_def truthy_def split: option.splits list.splits)
  next
    case False
    then have o: "(case (if length (file_list i) = 1 then outfile i else None) of
                     Some (c # cs) \<Rightarrow> c # cs | _ \<Rightarrow> x) = x" for x
      by (auto simp: truthy_def split: option.splits list.splits)
    have d: "(case dset i of Some (c # cs) \<Rightarrow> p @ (c # cs) @ ''.h5'' | _ \<Rightarrow> p @ basename infile)
             = p @ (if truthy (dset i) then the (dset i) @ ''.h5'' else basename infile)" for p
      by (auto simp: truthy_def split: option.splits list.splits)
    show ?thesis
      unfolding auto_output_filename_def o Let_def d if_not_P [OF False]
      by (cases "out_dir i"; cases "the (out_dir i)") (simp_all add: truthy_def j del: append.simps)
  qed
qed

theorem output_filename_counterexample:
  "auto_output_filename ''geometryRadar.h5'' (example_inps\<lparr>dset := Some ''height''\<rparr>) = ''geo_height.h5''
   \<and> auto_output_filename ''geometryRadar.h5'' (example_inps\<lparr>dset := Some ''height''\<rparr>) \<noteq> ''geo_'' @ ''height''"
  by (simp add: auto_output_filename_def example_inps_def)

section \<open>The RadarToGeo transform\<close>

lemma map_of_set_geo_keys:
  "map_of (set_geo_keys a r) =
     (map_of a)(''LENGTH'' \<mapsto> PInt (res_length r), ''WIDTH'' \<mapsto> PInt (res_width r),
       ''Y_FIRST'' \<mapsto> PFloat (fst (snd (res_SNWE r))),
       ''X_FIRST'' \<mapsto> PFloat (fst (snd (snd (res_SNWE r)))),
       ''Y_STEP'' \<mapsto> PFloat (fst (res_laloStep r)),
       ''X_STEP'' \<mapsto> PFloat (snd (res_laloStep r)),
       ''Y_UNIT'' \<mapsto> PStr ''degrees'', ''X_UNIT'' \<mapsto> PStr ''degrees'')"
  unfolding set_geo_keys_def update_conv' by (rule refl)

lemma keys_set_geo_keys: "keys (set_geo_keys a r) = keys a \<union> set geo_keys"
  unfolding set_geo_keys_def keys_update geo_keys_def by auto

lemma set_geo_keys_values:
  "map_of (set_geo_keys a r) ''LENGTH'' = Some (PInt (res_length r))"
  "map_of (set_geo_keys a r) ''WIDTH'' = Some (PInt (res_width r))"
  "map_of (set_geo_keys a r) ''Y_FIRST'' = Some (PFloat (fst (snd (res_SNWE r))))"
  "map_of (set_geo_keys a r) ''X_FIRST'' = Some (PFloat (fst (snd (snd (res_SNWE r)))))"
  "map_of (set_geo_keys a r) ''Y_STEP'' = Some (PFloat (fst (res_laloStep r)))"
  "map_of (set_geo_keys a r) ''X_STEP'' = Some (PFloat (snd (res_laloStep r)))"
  "map_of (set_geo_keys a r) ''Y_UNIT'' = Some (PStr ''degrees'')"
  "map_of (set_geo_keys a r) ''X_UNIT'' = Some (PStr ''degrees'')"
  unfolding map_of_set_geo_keys by simp_all

lemma set_geo_keys_other:
  "k \<notin> set geo_keys \<Longrightarrow> map_of (set_geo_keys a r) k = map_of a k"
  unfolding map_of_set_geo_keys geo_keys_def by simp

lemma REF_not_geo:
  "''REF_Y'' \<notin> set geo_keys" "''REF_X'' \<notin> set geo_keys"
  "''REF_LAT'' \<notin> set geo_keys" "''REF_LON'' \<notin> set geo_keys"
  by (simp_all add: geo_keys_def)

lemma radar2geo_noref:
  assumes "''REF_Y'' \<notin> keys atr_in"
  shows "metadata_radar2geo ops env w atr_in res = Inr (set_geo_keys atr_in res, [])"
proof -
  have "''REF_Y'' \<notin> keys (set_geo_keys atr_in res)"
    using assms REF_not_geo(1) by (simp add: keys_set_geo_keys)
  then show ?thesis by (simp add: metadata_radar2geo_def)
qed

lemma update_ref_Inr:
  assumes "update_ref ops (set_geo_keys a r) lat lon = Inr atr"
  shows "\<exists>qy ry qx rx.
           fdiv ops (fsub ops lat (fst (snd (res_SNWE r)))) (fst (res_laloStep r)) = Inr qy \<and>
           int_of_float ops (rint ops qy) = Inr ry \<and>
           fdiv ops (fsub ops lon (fst (snd (snd (res_SNWE r))))) (snd (res_laloStep r)) = Inr qx \<and>
           int_of_float ops (rint ops qx) = Inr rx \<and>
           atr = AList.update ''REF_X'' (PStr (str_of_int rx))
                (AList.update ''REF_Y'' (PStr (str_of_int ry))
                (AList.update ''REF_LON'' (PStr (str_of_float ops lon))
                (AList.update ''REF_LAT'' (PStr (str_of_float ops lat)) (set_geo_keys a r))))"
  using assms
  unfolding update_ref_def getitem_def set_geo_keys_values of_opt_def ref_index_def py_float_def
  by (auto simp: ebind_def split: sum.splits)

lemma radar2geo_cases:
  assumes "metadata_radar2geo ops env w atr_in res = Inr (atr, ws)"
  shows "(''REF_Y'' \<notin> keys atr_in \<and> atr = set_geo_keys atr_in res \<and> ws = [])
       \<or> (\<exists>vy y vx x lat lon.
            map_of atr_in ''REF_Y'' = Some vy \<and> py_int ops vy = Inr y \<and>
            map_of atr_in ''REF_X'' = Some vx \<and> py_int ops vx = Inr x \<and>
            radar2glob env w y x (res_file res) atr_in = (lat, lon) \<and>
            (if \<not> isnan ops lat \<and> \<not> isnan ops lon
             then update_ref ops (set_geo_keys atr_in res) lat lon = Inr atr \<and> ws = []
             else atr = drop_ref (set_geo_keys atr_in res) \<and> ws = [out_of_coverage]))"
proof (cases "''REF_Y'' \<in> keys atr_in")
  case False
  with assms radar2geo_noref [OF False, of ops env w res] show ?thesis by simp
next
  case True
  then have k: "''REF_Y'' \<in> keys (set_geo_keys atr_in res)"
    by (simp add: keys_set_geo_keys)
  have m: "map_of (set_geo_keys atr_in res) ''REF_Y'' = map_of atr_in ''REF_Y''"
          "map_of (set_geo_keys atr_in res) ''REF_X'' = map_of atr_in ''REF_X''"
    by (simp_all add: set_geo_keys_other REF_not_geo)
  show ?thesis
    using assms
    unfolding metadata_radar2geo_def Let_def if_P [OF k] getitem_def m
    by (auto simp: ebind_def of_opt_def split: sum.splits option.splits prod.splits if_splits)
qed

lemma map_of_try_pops:
  "k \<notin> set ks \<Longrightarrow> map_of (try_pops ks d) k = map_of d k"
  by (induction ks arbitrary: d) (auto simp: pop_def delete_conv' simp del: delete_id)

lemma map_of_drop_ref:
  "k \<notin> set ref_keys \<Longrightarrow> map_of (drop_ref d) k = map_of d k"
  unfolding drop_ref_def ref_keys_def by (simp add: map_of_try_pops del: try_pops.simps)

lemma radar2geo_other:
  assumes "metadata_radar2geo ops env w atr_in res = Inr (atr, ws)" and "k \<notin> set ref_keys"
  shows "map_of atr k = map_of (set_geo_keys atr_in res) k"
proof -
  from radar2geo_cases [OF assms(1)]
  consider (plain) "atr = set_geo_keys atr_in res"
    | (moved) lat lon where "update_ref ops (set_geo_keys atr_in res) lat lon = Inr atr"
    | (dropped) "atr = drop_ref (set_geo_keys atr_in res)"
    by (auto split: if_splits)
  then show ?thesis
  proof cases
    case plain
    then show ?thesis by simp
  next
    case moved
    from update_ref_Inr [OF moved] obtain ry rx where
      "atr = AList.update ''REF_X'' (PStr (str_of_int rx))
            (AList.update ''REF_Y'' (PStr (str_of_int ry))
            (AList.update ''REF_LON'' (PStr (str_of_float ops lon))
            (AList.update ''REF_LAT'' (PStr (str_of_float ops lat)) (set_geo_keys atr_in res))))"
      by blast
    with assms(2) show ?thesis
      by (auto simp: update_conv' ref_keys_def)
  next
    case dropped
    with assms(2) show ?thesis by (simp add: map_of_drop_ref)
  qed
qed

lemma radar2geo_ref:
  assumes r: "metadata_radar2geo ops env w atr_in res = Inr (atr, ws)"
    and "map_of atr_in ''REF_Y'' = Some vy" "py_int ops vy = Inr y"
    and "map_of atr_in ''REF_X'' = Some vx" "py_int ops vx = Inr x"
    and "radar2glob env w y x (res_file res) atr_in = (lat, lon)"
    and "\<not> isnan ops lat" "\<not> isnan ops lon"
  shows "\<exists>qy ry qx rx.
           fdiv ops (fsub ops lat (fst (snd (res_SNWE res)))) (fst (res_laloStep res)) = Inr qy \<and>
           int_of_float ops (rint ops qy) = Inr ry \<and>
           fdiv ops (fsub ops lon (fst (snd (snd (res_SNWE res))))) (snd (res_laloStep res)) = Inr qx \<and>
           int_of_float ops (rint ops qx) = Inr rx \<and>
           map_of atr ''REF_Y'' = Some (PStr (str_of_int ry)) \<and>
           map_of atr ''REF_X'' = Some (PStr (str_of_int rx)) \<and>
           map_of atr ''REF_LAT'' = Some (PStr (str_of_float ops lat)) \<and>
           map_of atr ''REF_LON'' = Some (PStr (str_of_float ops lon)) \<and> ws = []"
proof -
  have "''REF_Y'' \<in> keys atr_in"
    using assms(2) map_of_in_keys [of atr_in "''REF_Y''"] by simp
  with radar2geo_cases [OF r] assms(2-8)
  have u: "update_ref ops (set_geo_keys atr_in res) lat lon = Inr atr" and w: "ws = []"
    by auto
  from update_ref_Inr [OF u] obtain qy ry qx rx where
    q: "fdiv ops (fsub ops lat (fst (snd (res_SNWE res)))) (fst (res_laloStep res)) = Inr qy"
       "int_of_float ops (rint ops qy) = Inr ry"
       "fdiv ops (fsub ops lon (fst (snd (snd (res_SNWE res))))) (snd (res_laloStep res)) = Inr qx"
       "int_of_float ops (rint ops qx) = Inr rx"
    and a: "atr = AList.update ''REF_X'' (PStr (str_of_int rx))
            (AList.update ''REF_Y'' (PStr (str_of_int ry))
            (AList.update ''REF_LON'' (PStr (str_of_float ops lon))
            (AList.update ''REF_LAT'' (PStr (str_of_float ops lat)) (set_geo_keys atr_in res))))"
    by blast
  have "map_of atr ''REF_Y'' = Some (PStr (str_of_int ry))"
       "map_of atr ''REF_X'' = Some (PStr (str_of_int rx))"
       "map_of atr ''REF_LAT'' = Some (PStr (str_of_float ops lat))"
       "map_of atr ''REF_LON'' = Some (PStr (str_of_float ops lon))"
    unfolding a update_conv' by simp_all
  with q w show ?thesis by blast
qed

text \<open>
  Claim C6. The RadarToGeo transform returns whenever the input has no \<^verbatim>\<open>REF_Y\<close>.
  Whenever it returns, \<^verbatim>\<open>LENGTH\<close>/\<^verbatim>\<open>WIDTH\<close> are the grid size of the geometry,
  \<^verbatim>\<open>Y_FIRST\<close>/\<^verbatim>\<open>X_FIRST\<close> the N and W components of its bounding box,
  \<^verbatim>\<open>Y_STEP\<close>/\<^verbatim>\<open>X_STEP\<close> its grid step, \<^verbatim>\<open>Y_UNIT\<close>/\<^verbatim>\<open>X_UNIT\<close> are
  \<^verbatim>\<open>degrees\<close>, and every other key outside the reference-pixel keys has the value of
  the input. When the reference pixel relocates (the lookup gives no NaN), the new index on
  each axis is \<^verbatim>\<open>int(rint((value - origin) / step))\<close> with the origin and the step of the
  geometry, whatever \<^verbatim>\<open>Y_FIRST\<close> and \<^verbatim>\<open>Y_STEP\<close> the input had.
\<close>

theorem radar2geo_metadata:
  "(''REF_Y'' \<notin> keys atr_in \<longrightarrow>
      metadata_radar2geo ops env w atr_in res = Inr (set_geo_keys atr_in res, []))
   \<and> (metadata_radar2geo ops env w atr_in res = Inr (atr, ws) \<longrightarrow>
        map_of atr ''LENGTH'' = Some (PInt (res_length res)) \<and>
        map_of atr ''WIDTH'' = Some (PInt (res_width res)) \<and>
        map_of atr ''Y_FIRST'' = Some (PFloat (fst (snd (res_SNWE res)))) \<and>
        map_of atr ''X_FIRST'' = Some (PFloat (fst (snd (snd (res_SNWE res))))) \<and>
        map_of atr ''Y_STEP'' = Some (PFloat (fst (res_laloStep res))) \<and>
        map_of atr ''X_STEP'' = Some (PFloat (snd (res_laloStep res))) \<and>
        map_of atr ''Y_UNIT'' = Some (PStr ''degrees'') \<and>
        map_of atr ''X_UNIT'' = Some (PStr ''degrees'') \<and>
        (\<forall>k. k \<notin> set geo_keys \<union> set ref_keys \<longrightarrow> map_of atr k = map_of atr_in k) \<and>
        (\<forall>vy y vx x lat lon.
           map_of atr_in ''REF_Y'' = Some vy \<and> py_int ops vy = Inr y \<and>
           map_of atr_in ''REF_X'' = Some vx \<and> py_int ops vx = Inr x \<and>
           radar2glob env w y x (res_file res) atr_in = (lat, lon) \<and>
           \<not> isnan ops lat \<and> \<not> isnan ops lon \<longrightarrow>
           (\<exists>qy ry qx rx.
              fdiv ops (fsub ops lat (fst (snd (res_SNWE res)))) (fst (res_laloStep res)) = Inr qy \<and>
              int_of_float ops (rint ops qy) = Inr ry \<and>
              fdiv ops (fsub ops lon (fst (snd (snd (res_SNWE res))))) (snd (res_laloStep res)) = Inr qx \<and>
              int_of_float ops (rint ops qx) = Inr rx \<and>
              map_of atr ''REF_Y'' = Some (PStr (str_of_int ry)) \<and>
              map_of atr ''REF_X'' = Some (PStr (str_of_int rx)) \<and>
              map_of atr ''REF_LAT'' = Some (PStr (str_of_float ops lat)) \<and>
              map_of atr ''REF_LON'' = Some (PStr (str_of_float ops lon)) \<and> ws = [])))"
proof (intro conjI impI allI)
  assume "''REF_Y'' \<notin> keys atr_in"
  then show "metadata_radar2geo ops env w atr_in res = Inr (set_geo_keys atr_in res, [])"
    by (rule radar2geo_noref)
next
  fix k
  assume r: "metadata_radar2geo ops env w atr_in res = Inr (atr, ws)"
    and k: "k \<notin> set geo_keys \<union> set ref_keys"
  then show "map_of atr k = map_of atr_in k"
    using radar2geo_other [OF r, of k] set_geo_keys_other [of k atr_in res] by simp
next
  fix vy y vx x lat lon
  assume r: "metadata_radar2geo ops env w atr_in res = Inr (atr, ws)"
    and h: "map_of atr_in ''REF_Y'' = Some vy \<and> py_int ops vy = Inr y \<and>
       map_of atr_in ''REF_X'' = Some vx \<and> py_int ops vx = Inr x \<and>
       radar2glob env w y x (res_file res) atr_in = (lat, lon) \<and>
       \<not> isnan ops lat \<and> \<not> isnan ops lon"
  from h show "\<exists>qy ry qx rx.
              fdiv ops (fsub ops lat (fst (snd (res_SNWE res)))) (fst (res_laloStep res)) = Inr qy \<and>
              int_of_float ops (rint ops qy) = Inr ry \<and>
              fdiv ops (fsub ops lon (fst (snd (snd (res_SNWE res))))) (snd (res_laloStep res)) = Inr qx \<and>
              int_of_float ops (rint ops qx) = Inr rx \<and>
              map_of atr ''REF_Y'' = Some (PStr (str_of_int ry)) \<and>
              map_of atr ''REF_X'' = Some (PStr (str_of_int rx)) \<and>
              map_of atr ''REF_LAT'' = Some (PStr (str_of_float ops lat)) \<and>
              map_of atr ''REF_LON'' = Some (PStr (str_of_float ops lon)) \<and> ws = []"
    using radar2geo_ref [OF r, of vy y vx x lat lon] by blast
qed (simp_all add: radar2geo_other set_geo_keys_values ref_keys_def)

lemma example_radar2geo:
  "metadata_radar2geo qops (example_env (\<lambda>f. []) [] [] None (Fin 0, Fin 11)) ()
     [(''FILE_TYPE'', PStr ''velocity''), (''Y_FIRST'', PStr ''7''), (''REF_Y'', PStr ''10''),
      (''REF_X'', PStr ''20'')] example_res
   = Inr ([(''FILE_TYPE'', PStr ''velocity''), (''Y_FIRST'', PFloat (Fin 1)),
           (''REF_Y'', PStr ''50''), (''REF_X'', PStr ''100''), (''LENGTH'', PInt 100),
           (''WIDTH'', PInt 200), (''X_FIRST'', PFloat (Fin 10)),
           (''Y_STEP'', PFloat (Fin (- (1 / 50)))), (''X_STEP'', PFloat (Fin (1 / 100))),
           (''Y_UNIT'', PStr ''degrees''), (''X_UNIT'', PStr ''degrees''),
           (''REF_LAT'', PStr ''0.0''), (''REF_LON'', PStr ''11.0'')], [])"
  by code_simp

theorem radar2geo_metadata_witness:
  "metadata_radar2geo qops (example_env (\<lambda>f. []) [] [] None (Fin 0, Fin 11)) ()
     [(''FILE_TYPE'', PStr ''velocity''), (''Y_FIRST'', PStr ''7''), (''REF_Y'', PStr ''10''),
      (''REF_X'', PStr ''20'')] example_res
   = Inr ([(''FILE_TYPE'', PStr ''velocity''), (''Y_FIRST'', PFloat (Fin 1)),
           (''REF_Y'', PStr ''50''), (''REF_X'', PStr ''100''), (''LENGTH'', PInt 100),
           (''WIDTH'', PInt 200), (''X_FIRST'', PFloat (Fin 10)),
           (''Y_STEP'', PFloat (Fin (- (1 / 50)))), (''X_STEP'', PFloat (Fin (1 / 100))),
           (''Y_UNIT'', PStr ''degrees''), (''X_UNIT'', PStr ''degrees''),
           (''REF_LAT'', PStr ''0.0''), (''REF_LON'', PStr ''11.0'')], [])
   \<and> map_of [(''FILE_TYPE'', PStr ''velocity''), (''Y_FIRST'', PFloat (Fin 1)),
           (''REF_Y'', PStr ''50''), (''REF_X'', PStr ''100''), (''LENGTH'', PInt 100),
           (''WIDTH'', PInt 200), (''X_FIRST'', PFloat (Fin 10)),
           (''Y_STEP'', PFloat (Fin (- (1 / 50)))), (''X_STEP'', PFloat (Fin (1 / 100))),
           (''Y_UNIT'', PStr ''degrees''), (''X_UNIT'', PStr ''degrees''),
           (''REF_LAT'', PStr ''0.0''), (''REF_LON'', PStr ''11.0'')] ''Y_FIRST''
     = Some (PFloat (Fin 1 :: qfloat))"
  using radar2geo_metadata [THEN conjunct2, THEN mp, OF example_radar2geo] example_radar2geo
  by (simp add: example_res_def)

section \<open>The types of the values written\<close>

lemma list_all_update:
  "list_all P d \<Longrightarrow> P (k, v) \<Longrightarrow> list_all P (AList.update k v d)"
  by (induction d) auto

lemma list_all_delete: "list_all P d \<Longrightarrow> list_all P (AList.delete k d)"
  by (simp add: AList.delete_eq list_all_iff)

lemma list_all_try_pops: "list_all P d \<Longrightarrow> list_all P (try_pops ks d)"
  by (induction ks arbitrary: d) (auto simp: pop_def list_all_delete)

lemma all_str_weaken: "all_str d \<Longrightarrow> list_all (\<lambda>(k, v). is_str v \<or> k \<in> set ks) d"
  by (auto simp: all_str_def list_all_iff)

lemma set_geo_keys_types:
  assumes "all_str a"
  shows "list_all (\<lambda>(k, v). is_str v \<or>
           k \<in> set [''LENGTH'', ''WIDTH'', ''Y_FIRST'', ''X_FIRST'', ''Y_STEP'', ''X_STEP''])
         (set_geo_keys a r)"
  unfolding set_geo_keys_def
  by (intro list_all_update all_str_weaken assms) (simp_all add: is_str_def)

lemma radar2geo_types:
  assumes "all_str atr_in" and r: "metadata_radar2geo ops env w atr_in res = Inr (atr, ws)"
  shows "list_all (\<lambda>(k, v). is_str v \<or>
           k \<in> set [''LENGTH'', ''WIDTH'', ''Y_FIRST'', ''X_FIRST'', ''Y_STEP'', ''X_STEP'']) atr"
proof -
  note g = set_geo_keys_types [OF assms(1), of res]
  from radar2geo_cases [OF r]
  consider (plain) "atr = set_geo_keys atr_in res"
    | (moved) lat lon where "update_ref ops (set_geo_keys atr_in res) lat lon = Inr atr"
    | (dropped) "atr = drop_ref (set_geo_keys atr_in res)"
    by (auto split: if_splits)
  then show ?thesis
  proof cases
    case plain
    with g show ?thesis by simp
  next
    case moved
    from update_ref_Inr [OF moved] obtain ry rx where
      a: "atr = AList.update ''REF_X'' (PStr (str_of_int rx))
            (AList.update ''REF_Y'' (PStr (str_of_int ry))
            (AList.update ''REF_LON'' (PStr (str_of_float ops lon))
            (AList.update ''REF_LAT'' (PStr (str_of_float ops lat)) (set_geo_keys atr_in res))))"
      by blast
    show ?thesis
      unfolding a by (intro list_all_update g) (simp_all add: is_str_def)
  next
    case dropped
    show ?thesis
      unfolding dropped drop_ref_def by (intro list_all_try_pops g)
  qed
qed

lemma geo2radar_types:
  assumes "all_str atr_in"
  shows "list_all (\<lambda>(k, v). is_str v \<or> k \<in> set [''LENGTH'', ''WIDTH'']) (metadata_geo2radar atr_in res)"
  unfolding geo2radar_unfold
  by (intro list_all_delete list_all_update all_str_weaken assms) simp_all

text \<open>
  Claim C8, as amended. For an input whose values are all strings, every value of the
  dictionary returned by either transform is a string, except the values the transforms
  take from the geometry as they are: \<^verbatim>\<open>LENGTH\<close> and \<^verbatim>\<open>WIDTH\<close> are integers (both
  transforms), and \<^verbatim>\<open>Y_FIRST\<close>, \<^verbatim>\<open>X_FIRST\<close>, \<^verbatim>\<open>Y_STEP\<close>, \<^verbatim>\<open>X_STEP\<close> are floats
  (RadarToGeo).
\<close>

theorem transforms_value_types:
  assumes "all_str atr_in"
  shows "(metadata_radar2geo ops env w atr_in res = Inr (atr, ws) \<longrightarrow>
            list_all (\<lambda>(k, v). is_str v \<or>
              k \<in> set [''LENGTH'', ''WIDTH'', ''Y_FIRST'', ''X_FIRST'', ''Y_STEP'', ''X_STEP'']) atr \<and>
            map_of atr ''LENGTH'' = Some (PInt (res_length res)) \<and>
            map_of atr ''WIDTH'' = Some (PInt (res_width res)) \<and>
            map_of atr ''Y_FIRST'' = Some (PFloat (fst (snd (res_SNWE res)))) \<and>
            map_of atr ''X_FIRST'' = Some (PFloat (fst (snd (snd (res_SNWE res))))) \<and>
            map_of atr ''Y_STEP'' = Some (PFloat (fst (res_laloStep res))) \<and>
            map_of atr ''X_STEP'' = Some (PFloat (snd (res_laloStep res))))
       \<and> list_all (\<lambda>(k, v). is_str v \<or> k \<in> set [''LENGTH'', ''WIDTH''])
            (metadata_geo2radar atr_in res)
       \<and> map_of (metadata_geo2radar atr_in res) ''LENGTH'' = Some (PInt (res_length res))
       \<and> map_of (metadata_geo2radar atr_in res) ''WIDTH'' = Some (PInt (res_width res))"
proof (intro conjI impI)
  assume "metadata_radar2geo ops env w atr_in res = Inr (atr, ws)"
  then show "list_all (\<lambda>(k, v). is_str v \<or>
              k \<in> set [''LENGTH'', ''WIDTH'', ''Y_FIRST'', ''X_FIRST'', ''Y_STEP'', ''X_STEP'']) atr"
    by (rule radar2geo_types [OF assms])
next
  show "list_all (\<lambda>(k, v). is_str v \<or> k \<in> set [''LENGTH'', ''WIDTH''])
            (metadata_geo2radar atr_in res)"
    by (rule geo2radar_types [OF assms])
qed (simp_all add: radar2geo_other set_geo_keys_values ref_keys_def geo2radar_LENGTH geo2radar_WIDTH)

lemma example_all_str: "all_str [(''FILE_TYPE'', PStr ''velocity'')]"
  by (simp add: all_str_def is_str_def)

theorem transforms_value_types_witness:
  "all_str [(''FILE_TYPE'', PStr ''velocity'') :: string \<times> qfloat pyval]
   \<and> metadata_geo2radar [(''FILE_TYPE'', PStr ''velocity'')] example_res
     = [(''FILE_TYPE'', PStr ''velocity''), (''LENGTH'', PInt 100), (''WIDTH'', PInt 200)]
   \<and> map_of (metadata_geo2radar [(''FILE_TYPE'', PStr ''velocity'')] example_res) ''LENGTH''
     = Some (PInt 100)"
  using transforms_value_types [OF example_all_str, of qops "example_env (\<lambda>f. []) [] [] None (NaN, NaN)" "()" example_res "[]" "[]"]
  by (simp add: example_all_str example_res_def geo2radar_unfold)

theorem transforms_value_types_counterexample:
  "all_str [(''FILE_TYPE'', PStr ''velocity'') :: string \<times> qfloat pyval]
   \<and> \<not> all_str (metadata_geo2radar [(''FILE_TYPE'', PStr ''velocity'')] example_res)"
  by (simp add: all_str_def is_str_def geo2radar_unfold example_res_def)

section \<open>A reference pixel outside the coverage\<close>

lemma keys_try_pops_pair:
  "keys (try_pops [a, b] d) = (if a \<in> keys d then keys d - {a, b} else keys d)"
  by (auto simp: pop_def keys_delete)

lemma drop_ref_keys:
  assumes "''REF_Y'' \<in> keys d"
  shows "keys (drop_ref d) =
     (if ''REF_LAT'' \<in> keys d then keys d - set ref_keys else keys d - {''REF_Y'', ''REF_X''})"
  using assms unfolding drop_ref_def keys_try_pops_pair ref_keys_def by auto

text \<open>
  What the transform does when the lookup gives NaN: it returns with the warning, and
  the four reference keys are all gone exactly when the input has \<^verbatim>\<open>REF_LAT\<close> or has
  no \<^verbatim>\<open>REF_LON\<close>.
\<close>

lemma radar2geo_out_of_coverage:
  assumes "map_of atr_in ''REF_Y'' = Some vy" "py_int ops vy = Inr y"
    and "map_of atr_in ''REF_X'' = Some vx" "py_int ops vx = Inr x"
    and "radar2glob env w y x (res_file res) atr_in = (lat, lon)"
    and "isnan ops lat \<or> isnan ops lon"
  shows "metadata_radar2geo ops env w atr_in res
           = Inr (drop_ref (set_geo_keys atr_in res), [out_of_coverage])"
    and "keys (drop_ref (set_geo_keys atr_in res)) \<inter> set ref_keys =
           (if ''REF_LAT'' \<in> keys atr_in then {} else keys atr_in \<inter> {''REF_LON''})"
proof -
  have y: "''REF_Y'' \<in> keys atr_in"
    using assms(1) map_of_in_keys [of atr_in "''REF_Y''"] by simp
  then have k: "''REF_Y'' \<in> keys (set_geo_keys atr_in res)"
    by (simp add: keys_set_geo_keys)
  have m: "map_of (set_geo_keys atr_in res) ''REF_Y'' = map_of atr_in ''REF_Y''"
          "map_of (set_geo_keys atr_in res) ''REF_X'' = map_of atr_in ''REF_X''"
    by (simp_all add: set_geo_keys_other REF_not_geo)
  show "metadata_radar2geo ops env w atr_in res
           = Inr (drop_ref (set_geo_keys atr_in res), [out_of_coverage])"
    using assms
    unfolding metadata_radar2geo_def Let_def if_P [OF k] getitem_def m
    by (auto simp: ebind_def of_opt_def)
  have d: "set geo_keys \<inter> {''REF_Y'', ''REF_X'', ''REF_LAT'', ''REF_LON''} = {}"
    by (simp add: geo_keys_def)
  have rk: "set ref_keys = {''REF_Y'', ''REF_X'', ''REF_LAT'', ''REF_LON''}"
    by (simp add: ref_keys_def)
  show "keys (drop_ref (set_geo_keys atr_in res)) \<inter> set ref_keys =
           (if ''REF_LAT'' \<in> keys atr_in then {} else keys atr_in \<inter> {''REF_LON''})"
    unfolding drop_ref_keys [OF k] keys_set_geo_keys rk
    using d by auto
qed

text \<open>
  Claim C5, on the code. The input holds \<^verbatim>\<open>REF_Y\<close>, \<^verbatim>\<open>REF_X\<close> and \<^verbatim>\<open>REF_LON\<close> but no
  \<^verbatim>\<open>REF_LAT\<close>, and the lookup gives NaN for the reference pixel. The transform does not
  raise and emits the warning, but \<^verbatim>\<open>REF_LON\<close> stays in the output: the failing
  \<^verbatim>\<open>pop('REF_LAT')\<close> ends the try block before \<^verbatim>\<open>pop('REF_LON')\<close>.
\<close>

theorem ref_lon_not_dropped:
  "metadata_radar2geo qops (example_env (\<lambda>f. []) [] [] None (NaN, NaN)) ()
     [(''REF_Y'', PStr ''10''), (''REF_X'', PStr ''20''), (''REF_LON'', PStr ''-91.2'')] example_res
   = Inr ([(''REF_LON'', PStr ''-91.2''), (''LENGTH'', PInt 100), (''WIDTH'', PInt 200),
           (''Y_FIRST'', PFloat (Fin 1)), (''X_FIRST'', PFloat (Fin 10)),
           (''Y_STEP'', PFloat (Fin (- (1 / 50)))), (''X_STEP'', PFloat (Fin (1 / 100))),
           (''Y_UNIT'', PStr ''degrees''), (''X_UNIT'', PStr ''degrees'')], [out_of_coverage])"
  by code_simp

section \<open>Template values and command-line values\<close>

lemma efold_field:
  assumes step: "\<And>k i j. step k i = Inr j \<Longrightarrow> f j = (if k = kf then E (f i) else f i)"
    and idem: "\<And>x. E (E x) = E x"
  shows "efold step ks i = Inr i' \<Longrightarrow> f i' = (if kf \<in> set ks then E (f i) else f i)"
proof (induction ks arbitrary: i)
  case Nil
  then show ?case by simp
next
  case (Cons k ks)
  from Cons.prems obtain j where j: "step k i = Inr j" and r: "efold step ks j = Inr i'"
    by (auto simp: ebind_def split: sum.splits)
  from Cons.IH [OF r] step [OF j] show ?case
    by (auto simp: idem)
qed

lemma template_step_None:
  "map_of t (prefix_geocode @ k) = None \<Longrightarrow> template_step ops t k i = Inl KeyError"
  by (simp add: template_step_def)

lemma in_inps_keys:
  "''SNWE'' \<in> set inps_keys" "''latStep'' \<in> set inps_keys" "''lonStep'' \<in> set inps_keys"
  "''interpMethod'' \<in> set inps_keys" "''fillValue'' \<in> set inps_keys"
  by (simp_all add: inps_keys_def)

lemma step_interpMethod:
  "template_step ops t k i = Inr j \<Longrightarrow>
   interpMethod j = (if k = ''interpMethod''
      then (case template_lookup t ''interpMethod'' of Some v \<Rightarrow> v | None \<Rightarrow> interpMethod i)
      else interpMethod i)"
  unfolding template_step_def set_from_template_def template_lookup_def
  by (auto simp: ebind_def of_opt_def split: option.splits if_splits sum.splits)

lemma step_latStep:
  "template_step ops t k i = Inr j \<Longrightarrow>
   latStep j = (if k = ''latStep''
      then (case template_lookup t ''latStep'' of Some v \<Rightarrow> float_of_str ops v | None \<Rightarrow> latStep i)
      else latStep i)"
  unfolding template_step_def set_from_template_def template_lookup_def
  by (auto simp: ebind_def of_opt_def split: option.splits if_splits sum.splits)

lemma step_lonStep:
  "template_step ops t k i = Inr j \<Longrightarrow>
   lonStep j = (if k = ''lonStep''
      then (case template_lookup t ''lonStep'' of Some v \<Rightarrow> float_of_str ops v | None \<Rightarrow> lonStep i)
      else lonStep i)"
  unfolding template_step_def set_from_template_def template_lookup_def
  by (auto simp: ebind_def of_opt_def split: option.splits if_splits sum.splits)

lemma step_SNWE:
  "template_step ops t k i = Inr j \<Longrightarrow>
   SNWE j = (if k = ''SNWE''
      then (case template_lookup t ''SNWE'' of
              Some v \<Rightarrow> those (map (float_of_str ops) (split_on CHR '','' v)) | None \<Rightarrow> SNWE i)
      else SNWE i)"
  unfolding template_step_def set_from_template_def template_lookup_def
  by (auto simp: ebind_def of_opt_def split: option.splits if_splits sum.splits)

lemma step_fillValue:
  "template_step ops t k i = Inr j \<Longrightarrow>
   Some (fillValue j) = (if k = ''fillValue''
      then (case template_lookup t ''fillValue'' of
              Some v \<Rightarrow> (if contains ''nan'' (lower v) then Some (nan ops) else float_of_str ops v)
            | None \<Rightarrow> Some (fillValue i))
      else Some (fillValue i))"
  unfolding template_step_def set_from_template_def template_lookup_def
  by (auto simp: ebind_def of_opt_def split: option.splits if_splits sum.splits)

lemma template_lookup_absent:
  "prefix_geocode @ k \<notin> keys t \<Longrightarrow> template_lookup t k = None"
  by (simp add: template_lookup_def map_of_in_keys [symmetric])

lemma read_template_field:
  assumes step: "\<And>k i j. template_step ops (check_template_auto_value (read_template env w tf)) k i = Inr j \<Longrightarrow>
        f j = (if k = kf
               then (case template_lookup (check_template_auto_value (read_template env w tf)) kf of
                       Some v \<Rightarrow> c v | None \<Rightarrow> f i)
               else f i)"
    and kf: "kf \<in> set inps_keys"
    and lalo: "\<And>j. f (set_laloStep j) = f j"
    and r: "read_template2inps ops env w tf i = Inr i'"
  shows "f i' = (case template_value env w tf kf of Some v \<Rightarrow> c v | None \<Rightarrow> f i)"
proof -
  define t where "t = check_template_auto_value (read_template env w tf)"
  define E where "E = (\<lambda>x. case template_lookup t kf of Some v \<Rightarrow> c v | None \<Rightarrow> x)"
  define ks where "ks = filter (\<lambda>i. prefix_geocode @ i \<in> keys t) inps_keys"
  from r obtain j where j: "efold (template_step ops t) ks i = Inr j" and i': "i' = set_laloStep j"
    by (auto simp: read_template2inps_def Let_def ebind_def t_def ks_def split: sum.splits)
  have idem: "\<And>x. E (E x) = E x"
    by (simp add: E_def split: option.splits)
  have s: "\<And>k i j. template_step ops t k i = Inr j \<Longrightarrow> f j = (if k = kf then E (f i) else f i)"
    using step by (simp add: t_def E_def)
  have "f j = (if kf \<in> set ks then E (f i) else f i)"
    using efold_field [of "template_step ops t" f kf E ks i j] s idem j by blast
  moreover have "kf \<notin> set ks \<Longrightarrow> E (f i) = f i"
    using kf by (simp add: ks_def E_def template_lookup_absent)
  ultimately have "f j = E (f i)" by auto
  then show ?thesis
    by (simp add: i' lalo E_def t_def template_value_def)
qed

lemma set_laloStep_keeps:
  "SNWE (set_laloStep j) = SNWE j" "interpMethod (set_laloStep j) = interpMethod j"
  "fillValue (set_laloStep j) = fillValue j"
  by (simp_all add: set_laloStep_def Let_def)

text \<open>
  Claim C1, as amended. For each of the fields \<^verbatim>\<open>SNWE\<close>, \<^verbatim>\<open>latStep\<close>, \<^verbatim>\<open>lonStep\<close>,
  \<^verbatim>\<open>interpMethod\<close> and \<^verbatim>\<open>fillValue\<close>: when the template has a non-empty value other
  than \<^verbatim>\<open>auto\<close> for the field, the resolved field is that value (coerced), whatever the
  command line gave; the command-line value stays only when the template has no such
  value.
\<close>

theorem template_value_replaces_cli:
  assumes "read_template2inps ops env w tf i = Inr i'"
  shows "SNWE i' = (case template_value env w tf ''SNWE'' of
                      Some v \<Rightarrow> those (map (float_of_str ops) (split_on CHR '','' v))
                    | None \<Rightarrow> SNWE i)
       \<and> latStep i' = (case template_value env w tf ''latStep'' of
                         Some v \<Rightarrow> float_of_str ops v | None \<Rightarrow> latStep i)
       \<and> lonStep i' = (case template_value env w tf ''lonStep'' of
                         Some v \<Rightarrow> float_of_str ops v | None \<Rightarrow> lonStep i)
       \<and> interpMethod i' = (case template_value env w tf ''interpMethod'' of
                              Some v \<Rightarrow> v | None \<Rightarrow> interpMethod i)
       \<and> Some (fillValue i') = (case template_value env w tf ''fillValue'' of
                                  Some v \<Rightarrow> (if contains ''nan'' (lower v) then Some (nan ops)
                                             else float_of_str ops v)
                                | None \<Rightarrow> Some (fillValue i))"
proof (intro conjI)
  show "SNWE i' = (case template_value env w tf ''SNWE'' of
                      Some v \<Rightarrow> those (map (float_of_str ops) (split_on CHR '','' v))
                    | None \<Rightarrow> SNWE i)"
    by (rule read_template_field [where f = SNWE and c = "\<lambda>v. those (map (float_of_str ops) (split_on CHR '','' v))",
          OF step_SNWE in_inps_keys(1) set_laloStep_keeps(1) assms])
  show "latStep i' = (case template_value env w tf ''latStep'' of
                         Some v \<Rightarrow> float_of_str ops v | None \<Rightarrow> latStep i)"
    by (rule read_template_field [where f = latStep and c = "float_of_str ops",
          OF step_latStep in_inps_keys(2) set_laloStep_eq(2) assms])
  show "lonStep i' = (case template_value env w tf ''lonStep'' of
                         Some v \<Rightarrow> float_of_str ops v | None \<Rightarrow> lonStep i)"
    by (rule read_template_field [where f = lonStep and c = "float_of_str ops",
          OF step_lonStep in_inps_keys(3) set_laloStep_eq(3) assms])
  show "interpMethod i' = (case template_value env w tf ''interpMethod'' of
                              Some v \<Rightarrow> v | None \<Rightarrow> interpMethod i)"
    by (rule read_template_field [where f = interpMethod and c = "\<lambda>v. v",
          OF step_interpMethod in_inps_keys(4) set_laloStep_keeps(2) assms])
  show "Some (fillValue i') = (case template_value env w tf ''fillValue'' of
                                  Some v \<Rightarrow> (if contains ''nan'' (lower v) then Some (nan ops)
                                             else float_of_str ops v)
                                | None \<Rightarrow> Some (fillValue i))"
    by (rule read_template_field [where f = "\<lambda>i. Some (fillValue i)"
            and c = "\<lambda>v. if contains ''nan'' (lower v) then Some (nan ops) else float_of_str ops v",
          OF step_fillValue in_inps_keys(5) _ assms])
       (simp_all add: set_laloStep_def Let_def)
qed

lemma example_template_latStep:
  "read_template2inps qops
     (example_env no_attributes
        [(''pysar.geocode.latStep'', ''0.25''), (''pysar.geocode.lonStep'', ''auto'')] [] None (NaN, NaN))
     () ''template.txt'' (example_inps\<lparr>latStep := Some (Fin (1 / 2))\<rparr>)
   = Inr (example_inps\<lparr>latStep := Some (Fin (1 / 4))\<rparr>)"
  by code_simp

theorem template_value_replaces_cli_witness:
  "read_template2inps qops
     (example_env no_attributes
        [(''pysar.geocode.latStep'', ''0.25''), (''pysar.geocode.lonStep'', ''auto'')] [] None (NaN, NaN))
     () ''template.txt'' (example_inps\<lparr>latStep := Some (Fin (1 / 2))\<rparr>)
   = Inr (example_inps\<lparr>latStep := Some (Fin (1 / 4))\<rparr>)
   \<and> latStep (example_inps\<lparr>latStep := Some (Fin (1 / 4))\<rparr>) = Some (Fin (1 / 4))"
  using template_value_replaces_cli [OF example_template_latStep] example_template_latStep
  by simp

theorem template_value_replaces_cli_counterexample:
  "read_template2inps qops
     (example_env no_attributes [(''pysar.geocode.interpMethod'', ''nearest'')] [] None (NaN, NaN))
     () ''template.txt'' (example_inps\<lparr>interpMethod := ''bilinear''\<rparr>)
   = Inr (example_inps\<lparr>interpMethod := ''nearest''\<rparr>)"
  by code_simp

section \<open>Update mode\<close>

text \<open>
  The file whose output is up to date is skipped without any event, and the loop ends
  there: the files after it are not looked at.
\<close>

lemma run_files_skip:
  assumes "updateMode inps"
    and "\<not> update_file env w (auto_output_filename infile inps) [Some infile, lookupFile inps]"
  shows "run_files ops env inps nprocs res (infile # rest) w tr last_out
           = Inr (w, tr, auto_output_filename infile inps)"
  using assms by (simp add: Let_def)

text \<open>
  Claim C2, on the code. Two input files in update mode: the output of the first,
  \<^verbatim>\<open>geo_a.h5\<close>, is up to date and that of the second is not. The run returns
  \<^verbatim>\<open>geo_a.h5\<close> with an empty trace: \<^verbatim>\<open>b.h5\<close> is neither resampled nor written.
\<close>

theorem update_skip_ends_run:
  "run_resample qops (example_env no_attributes [] [''geo_a.h5''] None (NaN, NaN)) ()
     (example_inps\<lparr>file_list := [''a.h5'', ''b.h5''], updateMode := True,
                     lookupFile := Some ''geometryRadar.h5''\<rparr>)
   = Inr ((), [], ''geo_a.h5'')"
  by code_simp

end
